theory Spec2Isabelle
  imports Main "HOL-Library.Mapping" "HOL-Library.AList_Mapping"
begin

section \<open>cyhy\_config: locating, reading and validating a CyHy configuration\<close>

text \<open>
  A shallow embedding of \<^verbatim>\<open>src/cyhy_config/cyhy_config.py\<close>. The module reads the
  process environment, the filesystem, the SSM parameter store, and calls the TOML decoder;
  all of these are inputs of the model, collected in the record \<open>world\<close>. Every function
  returns its Python result (an exception is \<open>Inl\<close>, a returned value \<open>Inr\<close>) paired
  with the list of what it did, in program order: the filesystem tests, the file it opened,
  the requests it sent to the parameter store and the log records it emitted.
\<close>

subsection \<open>Data\<close>

text \<open>
  A \<^verbatim>\<open>pathlib.Path\<close> is kept as the string it was built from; \<^verbatim>\<open>Path.home() / s\<close>
  appends a component.
\<close>

datatype path = Path string

fun str_path :: "path \<Rightarrow> string" where
  "str_path (Path s) = s"

fun joinpath :: "path \<Rightarrow> string \<Rightarrow> path" where
  "joinpath (Path d) s = Path (d @ ''/'' @ s)"

text \<open>
  The exceptions the module raises or lets through. \<open>ClientError\<close> carries
  \<^verbatim>\<open>e.response["Error"]["Code"]\<close>; \<open>ValidationError\<close> carries the violations pydantic
  reports; \<open>OtherError\<close> is any exception of a class the module does not name
  (a botocore connection error, \<^verbatim>\<open>PermissionError\<close>, \<^verbatim>\<open>UnicodeDecodeError\<close>, ...).
\<close>

datatype violation = Missing string | TypeMismatch string | ExtraForbidden string

datatype error =
    FileNotFoundError string
  | ClientError string
  | TOMLDecodeError string
  | ValidationError "violation set"
  | OtherError string

datatype level = DEBUG | INFO | WARNING | ERROR

text \<open>
  What a call does besides returning. A log record keeps its level and its format string;
  \<^verbatim>\<open>logger.error(e)\<close> keeps the exception.
\<close>

datatype event =
    PathExists path
  | IsFile path
  | OpenFile path
  | GetParameter string
  | Log level string
  | LogException error

type_synonym 'a result = "(error + 'a) \<times> event list"

text \<open>
  The decoded configuration is a \<^verbatim>\<open>dict\<close> from strings to TOML values \<open>'v\<close>. A model is
  the pydantic class the caller passes: calling it on the keyword arguments either builds an
  instance \<open>'i\<close> or raises. \<^verbatim>\<open>get_config\<close> returns the dict or the instance.
\<close>

type_synonym 'v config_dict = "(string, 'v) mapping"

type_synonym ('v, 'i) model = "'v config_dict \<Rightarrow> error + 'i"

datatype ('v, 'i) config = Dict "'v config_dict" | Instance 'i

record 'v world =
  environ :: "string \<Rightarrow> string option"
  home :: path
  path_exists :: "path \<Rightarrow> bool"
  isfile :: "path \<Rightarrow> bool"
  open_rb :: "path \<Rightarrow> error + string"
  get_parameter :: "string \<Rightarrow> error + string"
  toml_loads :: "string \<Rightarrow> error + 'v config_dict"
  toml_load :: "string \<Rightarrow> error + 'v config_dict"

text \<open>
  \<open>environ\<close> is \<^verbatim>\<open>os.environ.get\<close>, \<open>home\<close> is \<^verbatim>\<open>Path.home()\<close>, \<open>path_exists\<close> is
  \<^verbatim>\<open>Path.exists\<close>, \<open>isfile\<close> is \<^verbatim>\<open>os.path.isfile\<close>, \<open>open_rb\<close> opens a file in
  binary mode and gives its content. \<open>get_parameter\<close> is
  \<^verbatim>\<open>client("ssm").get_parameter(Name=k, WithDecryption=True)\<close>: the parameter's value, or the
  exception raised. \<open>toml_loads\<close> is \<^verbatim>\<open>tomllib.loads\<close> on a string and \<open>toml_load\<close> is
  \<^verbatim>\<open>tomllib.load\<close> on the content of a binary file.
\<close>

subsection \<open>Module constants\<close>

definition CONFIG_PATH_CWD :: path where
  "CONFIG_PATH_CWD = Path ''cyhy.toml''"

definition CONFIG_PATH_ETC :: path where
  "CONFIG_PATH_ETC = Path ''/etc/cyhy.toml''"

definition CONFIG_PATH_HOME :: "'v world \<Rightarrow> path" where
  "CONFIG_PATH_HOME w = joinpath (home w) ''.cyhy/cyhy.toml''"

definition CYHY_CONFIG_PATH_ENV :: string where
  "CYHY_CONFIG_PATH_ENV = ''CYHY_CONFIG_PATH''"

definition CYHY_CONFIG_SSM_PATH_ENV :: string where
  "CYHY_CONFIG_SSM_PATH_ENV = ''CYHY_CONFIG_SSM_PATH''"

subsection \<open>Python truthiness\<close>

text \<open>
  \<^verbatim>\<open>if s:\<close> on an \<^verbatim>\<open>Optional[str]\<close> keeps the non-empty strings: \<open>nonempty\<close> gives the
  string when the test passes.
\<close>

fun nonempty :: "string option \<Rightarrow> string option" where
  "nonempty None = None"
| "nonempty (Some s) = (if s = [] then None else Some s)"

text \<open>
  \<^verbatim>\<open>if config:\<close> on \<^verbatim>\<open>T | dict | None\<close>: \<^verbatim>\<open>None\<close> and the empty dict are false; a
  pydantic instance is true (\<^verbatim>\<open>BaseModel\<close> defines neither \<^verbatim>\<open>__bool__\<close> nor
  \<^verbatim>\<open>__len__\<close>).
\<close>

fun truthy :: "('v, 'i) config option \<Rightarrow> bool" where
  "truthy None = False"
| "truthy (Some (Dict d)) = (\<not> Mapping.is_empty d)"
| "truthy (Some (Instance i)) = True"

subsection \<open>validate\_config\<close>

definition validate_config ::
  "'v config_dict \<Rightarrow> ('v, 'i) model option \<Rightarrow> ('v, 'i) config result" where
  "validate_config config_dict model =
     (case model of
        None \<Rightarrow>
          (Inr (Dict config_dict),
           [Log INFO ''No model provided, returning config as a dictionary.'',
            Log DEBUG ''Parsed configuration:\<newline>%s''])
      | Some m \<Rightarrow>
          (case m config_dict of
             Inr config \<Rightarrow>
               (Inr (Instance config), [Log DEBUG ''Validated configuration:\<newline>%s''])
           | Inl e \<Rightarrow>
               (case e of
                  ValidationError vs \<Rightarrow> (Inl e, [LogException e])
                | _ \<Rightarrow> (Inl e, []))))"

subsection \<open>find\_config\_file\<close>

text \<open>
  The first two blocks of \<^verbatim>\<open>find_config_file\<close> test a path that may be absent: the
  parameter, then the environment variable. Each gives the accepted path, if any, and what
  it did.
\<close>

definition check_parameter :: "'v world \<Rightarrow> string option \<Rightarrow> path option \<times> event list" where
  "check_parameter w file_path =
     (case nonempty file_path of
        None \<Rightarrow> (None, [])
      | Some fp \<Rightarrow>
          if path_exists w (Path fp)
          then (Some (Path fp),
                [PathExists (Path fp),
                 Log DEBUG ''Using configuration file passed as parameter: %s''])
          else (None,
                [PathExists (Path fp),
                 Log WARNING ''Configuration file passed as parameter not found: %s'']))"

definition check_environment :: "'v world \<Rightarrow> path option \<times> event list" where
  "check_environment w =
     (case nonempty (environ w CYHY_CONFIG_PATH_ENV) of
        None \<Rightarrow> (None, [])
      | Some env_file_value \<Rightarrow>
          (let env_path = Path env_file_value in
           if path_exists w env_path
           then (Some env_path,
                 [PathExists env_path,
                  Log DEBUG ''Using configuration file from environment variable: %s''])
           else (None,
                 [PathExists env_path,
                  Log WARNING ''Configuration file from environment variable not found: %s''])))"

definition find_config_file :: "'v world \<Rightarrow> string option \<Rightarrow> path result" where
  "find_config_file w file_path =
     (case check_parameter w file_path of
        (Some p, t1) \<Rightarrow> (Inr p, t1)
      | (None, t1) \<Rightarrow>
     (case check_environment w of
        (Some p, t2) \<Rightarrow> (Inr p, t1 @ t2)
      | (None, t2) \<Rightarrow>
     if path_exists w CONFIG_PATH_CWD
     then (Inr CONFIG_PATH_CWD,
           t1 @ t2 @
           [PathExists CONFIG_PATH_CWD,
            Log DEBUG ''Using configuration file from current working directory: %s''])
     else if path_exists w (CONFIG_PATH_HOME w)
     then (Inr (CONFIG_PATH_HOME w),
           t1 @ t2 @
           [PathExists CONFIG_PATH_CWD, PathExists (CONFIG_PATH_HOME w),
            Log DEBUG ''Using configuration file from home directory: %s''])
     else if path_exists w CONFIG_PATH_ETC
     then (Inr CONFIG_PATH_ETC,
           t1 @ t2 @
           [PathExists CONFIG_PATH_CWD, PathExists (CONFIG_PATH_HOME w),
            PathExists CONFIG_PATH_ETC,
            Log DEBUG ''Using configuration file from /etc directory: %s''])
     else (Inl (FileNotFoundError ''No CyHy configuration file found.''),
           t1 @ t2 @
           [PathExists CONFIG_PATH_CWD, PathExists (CONFIG_PATH_HOME w),
            PathExists CONFIG_PATH_ETC,
            Log ERROR ''No CyHy configuration file found.''])))"

subsection \<open>read\_config\_ssm\<close>

text \<open>
  The loop over the two key slots. A slot with no key is logged and skipped; the first slot
  with a key ends the loop, whatever the store answers.
\<close>

fun ssm_loop ::
  "'v world \<Rightarrow> ('v, 'i) model option \<Rightarrow> (string option \<times> string) list
     \<Rightarrow> ('v, 'i) config option result" where
  "ssm_loop w model [] = (Inr None, [])"
| "ssm_loop w model ((path, source) # rest) =
     (case nonempty path of
        None \<Rightarrow>
          (case ssm_loop w model rest of
             (r, t) \<Rightarrow> (r, Log DEBUG ''Checking SSM parameter from %s: %s'' # t))
      | Some p \<Rightarrow>
          (case get_parameter w p of
             Inl e \<Rightarrow>
               (case e of
                  ClientError code \<Rightarrow>
                    if code = ''ParameterNotFound''
                    then (Inr None,
                          [Log DEBUG ''Checking SSM parameter from %s: %s'', GetParameter p,
                           Log WARNING ''SSM parameter not found: %s''])
                    else (Inl e,
                          [Log DEBUG ''Checking SSM parameter from %s: %s'', GetParameter p,
                           LogException e])
                | _ \<Rightarrow>
                    (Inl e,
                     [Log DEBUG ''Checking SSM parameter from %s: %s'', GetParameter p]))
           | Inr param_value \<Rightarrow>
               (case toml_loads w param_value of
                  Inl e \<Rightarrow>
                    (case e of
                       TOMLDecodeError msg \<Rightarrow>
                         (Inl e,
                          [Log DEBUG ''Checking SSM parameter from %s: %s'', GetParameter p,
                           Log DEBUG ''Using configuration file from SSM %s: %s'',
                           Log ERROR ''Error decoding TOML: %s''])
                     | _ \<Rightarrow>
                         (Inl e,
                          [Log DEBUG ''Checking SSM parameter from %s: %s'', GetParameter p,
                           Log DEBUG ''Using configuration file from SSM %s: %s'']))
                | Inr config_dict \<Rightarrow>
                    (case validate_config config_dict model of
                       (r, t) \<Rightarrow>
                         (map_sum id Some r,
                          [Log DEBUG ''Checking SSM parameter from %s: %s'', GetParameter p,
                           Log DEBUG ''Using configuration file from SSM %s: %s''] @ t)))))"

definition read_config_ssm ::
  "'v world \<Rightarrow> string option \<Rightarrow> ('v, 'i) model option \<Rightarrow> ('v, 'i) config option result" where
  "read_config_ssm w ssm_path model =
     ssm_loop w model
       [(ssm_path, ''path''),
        (environ w CYHY_CONFIG_SSM_PATH_ENV, ''environment variable'')]"

subsection \<open>read\_config\_file\<close>

definition read_config_file ::
  "'v world \<Rightarrow> path \<Rightarrow> ('v, 'i) model option \<Rightarrow> ('v, 'i) config result" where
  "read_config_file w config_file model =
     (if \<not> isfile w config_file
      then (Inl (FileNotFoundError (''Config file not found: '' @ str_path config_file)),
            [IsFile config_file, Log ERROR ''Config file not found: %s''])
      else
        (case open_rb w config_file of
           Inl e \<Rightarrow>
             (Inl e,
              [IsFile config_file, Log DEBUG ''Reading config file: %s'', OpenFile config_file])
         | Inr content \<Rightarrow>
             (case toml_load w content of
                Inl e \<Rightarrow>
                  (case e of
                     TOMLDecodeError msg \<Rightarrow>
                       (Inl e,
                        [IsFile config_file, Log DEBUG ''Reading config file: %s'',
                         OpenFile config_file, Log ERROR ''Error decoding TOML file: %s''])
                   | _ \<Rightarrow>
                       (Inl e,
                        [IsFile config_file, Log DEBUG ''Reading config file: %s'',
                         OpenFile config_file]))
              | Inr config_dict \<Rightarrow>
                  (case validate_config config_dict model of
                     (r, t) \<Rightarrow>
                       (r,
                        [IsFile config_file, Log DEBUG ''Reading config file: %s'',
                         OpenFile config_file] @ t)))))"

subsection \<open>get\_config\<close>

definition get_config ::
  "'v world \<Rightarrow> string option \<Rightarrow> string option \<Rightarrow> ('v, 'i) model option
     \<Rightarrow> ('v, 'i) config result" where
  "get_config w file_path ssm_path model =
     (case read_config_ssm w ssm_path model of
        (Inl e, t1) \<Rightarrow> (Inl e, t1)
      | (Inr config, t1) \<Rightarrow>
          (case (if truthy config then config else None) of
             Some c \<Rightarrow> (Inr c, t1)
           | None \<Rightarrow>
               (case find_config_file w file_path of
                  (Inl e, t2) \<Rightarrow> (Inl e, t1 @ t2)
                | (Inr config_file_path, t2) \<Rightarrow>
                    (case read_config_file w config_file_path model of
                       (r, t3) \<Rightarrow> (r, t1 @ t2 @ t3)))))"

subsection \<open>Reading a trace\<close>

text \<open>
  The filesystem accesses of a trace, and the keys it sent to the parameter store.
\<close>

fun is_fs_event :: "event \<Rightarrow> bool" where
  "is_fs_event (PathExists p) = True"
| "is_fs_event (IsFile p) = True"
| "is_fs_event (OpenFile p) = True"
| "is_fs_event (GetParameter k) = False"
| "is_fs_event (Log l m) = False"
| "is_fs_event (LogException e) = False"

definition fs_events :: "event list \<Rightarrow> event list" where
  "fs_events t = filter is_fs_event t"

fun ssm_request :: "event \<Rightarrow> string option" where
  "ssm_request (GetParameter k) = Some k"
| "ssm_request (PathExists p) = None"
| "ssm_request (IsFile p) = None"
| "ssm_request (OpenFile p) = None"
| "ssm_request (Log l m) = None"
| "ssm_request (LogException e) = None"

definition ssm_requests :: "event list \<Rightarrow> string list" where
  "ssm_requests t = List.map_filter ssm_request t"

subsection \<open>The vocabulary of the specification\<close>

text \<open>
  The five precedence tiers of the specification, numbered 1 to 5 as there: the path each
  tier designates, if it designates one. An absent or empty string designates no path.
\<close>

definition tier_candidate :: "'v world \<Rightarrow> string option \<Rightarrow> nat \<Rightarrow> path option" where
  "tier_candidate w file_path k =
     (if k = 1 then map_option Path (nonempty file_path)
      else if k = 2 then map_option Path (nonempty (environ w CYHY_CONFIG_PATH_ENV))
      else if k = 3 then Some CONFIG_PATH_CWD
      else if k = 4 then Some (CONFIG_PATH_HOME w)
      else if k = 5 then Some CONFIG_PATH_ETC
      else None)"

definition tier_exists :: "'v world \<Rightarrow> string option \<Rightarrow> nat \<Rightarrow> bool" where
  "tier_exists w file_path k =
     (case tier_candidate w file_path k of None \<Rightarrow> False | Some p \<Rightarrow> path_exists w p)"

text \<open>
  The two key slots of the specification: the key argument, then the environment variable.
  \<open>first_key\<close> is the first non-empty one, if any.
\<close>

definition first_key :: "'v world \<Rightarrow> string option \<Rightarrow> string option" where
  "first_key w ssm_path =
     (case nonempty ssm_path of
        Some k \<Rightarrow> Some k
      | None \<Rightarrow> nonempty (environ w CYHY_CONFIG_SSM_PATH_ENV))"

text \<open>
  The filesystem half of a resolution: what \<^verbatim>\<open>get_config\<close> returns once the remote
  lookup has supplied nothing.
\<close>

definition filesystem_result ::
  "'v world \<Rightarrow> string option \<Rightarrow> ('v, 'i) model option \<Rightarrow> error + ('v, 'i) config" where
  "filesystem_result w file_path model =
     (case fst (find_config_file w file_path) of
        Inl e \<Rightarrow> Inl e
      | Inr p \<Rightarrow> fst (read_config_file w p model))"

subsection \<open>Schemas\<close>

text \<open>
  Modelled from the spec: the model class handed to \<^verbatim>\<open>validate_config\<close> is a pydantic
  \<^verbatim>\<open>BaseModel\<close> subclass, and pydantic is a third-party library whose code is not part of
  this module. The specification describes it as a schema descriptor: a list of fields, each
  with a name, a type and whether it is required, and an openness policy; constructing an
  instance from a mapping fails on any field type mismatch, missing required field or
  rejected unknown field, and reports every violation found. A type is the test a value of
  that type passes. The instance holds the schema's fields that the mapping gives.
\<close>

record 'v field =
  fname :: string
  ftype :: "'v \<Rightarrow> bool"
  required :: bool

record 'v schema =
  schema_fields :: "'v field list"
  forbid_extra :: bool

definition field_violations :: "'v config_dict \<Rightarrow> 'v field \<Rightarrow> violation list" where
  "field_violations d f =
     (case Mapping.lookup d (fname f) of
        None \<Rightarrow> if required f then [Missing (fname f)] else []
      | Some v \<Rightarrow> if ftype f v then [] else [TypeMismatch (fname f)])"

definition unknown_fields :: "'v schema \<Rightarrow> 'v config_dict \<Rightarrow> string set" where
  "unknown_fields s d =
     (if forbid_extra s then Mapping.keys d - set (map fname (schema_fields s)) else {})"

definition violations :: "'v schema \<Rightarrow> 'v config_dict \<Rightarrow> violation set" where
  "violations s d =
     set (concat (map (field_violations d) (schema_fields s))) \<union> ExtraForbidden ` unknown_fields s d"

definition construct :: "'v schema \<Rightarrow> ('v, 'v config_dict) model" where
  "construct s d =
     (if violations s d = {}
      then Inr (Mapping.filter (\<lambda>k v. k \<in> set (map fname (schema_fields s))) d)
      else Inl (ValidationError (violations s d)))"

text \<open>
  A mapping conforms to a schema when it contains every required field, every field it
  contains has its type, and it has no field the schema rejects.
\<close>

definition conforms :: "'v schema \<Rightarrow> 'v config_dict \<Rightarrow> bool" where
  "conforms s d =
     (list_all
        (\<lambda>f. case Mapping.lookup d (fname f) of None \<Rightarrow> \<not> required f | Some v \<Rightarrow> ftype f v)
        (schema_fields s)
      \<and> unknown_fields s d = {})"

subsection \<open>Example worlds\<close>

text \<open>
  A decoder that knows three documents, with integers as values, and a machine on which
  every file that can be opened holds the first of them.
\<close>

definition example_loads :: "string \<Rightarrow> error + int config_dict" where
  "example_loads s =
     (if s = ''port = 8080'' then Inr (Mapping.update ''port'' 8080 Mapping.empty)
      else if s = ''port = 443'' then Inr (Mapping.update ''port'' 443 Mapping.empty)
      else if s = ''# empty'' then Inr Mapping.empty
      else Inl (TOMLDecodeError ''Invalid statement''))"

definition example_world ::
  "(string \<Rightarrow> string option) \<Rightarrow> (path \<Rightarrow> bool) \<Rightarrow> (path \<Rightarrow> bool)
     \<Rightarrow> (string \<Rightarrow> error + string) \<Rightarrow> int world" where
  "example_world env ex isf store =
     \<lparr> environ = env, home = Path ''/home/cyhy'', path_exists = ex, isfile = isf,
       open_rb = (\<lambda>p. if isf p then Inr ''port = 8080''
                      else Inl (OtherError ''IsADirectoryError'')),
       get_parameter = store, toml_loads = example_loads, toml_load = example_loads \<rparr>"

definition no_store :: "string \<Rightarrow> error + string" where
  "no_store k = Inl (ClientError ''ParameterNotFound'')"

definition is_etc :: "path \<Rightarrow> bool" where
  "is_etc p = (p = Path ''/etc/cyhy.toml'')"

definition nothing :: "path \<Rightarrow> bool" where
  "nothing p = False"

text \<open>Only \<^verbatim>\<open>/etc/cyhy.toml\<close> exists, as a regular file; nothing remote is configured.\<close>

definition etc_world :: "int world" where
  "etc_world = example_world (\<lambda>n. None) is_etc is_etc no_store"

text \<open>\<^verbatim>\<open>/etc/cyhy.toml\<close> exists and is a directory.\<close>

definition etc_directory_world :: "int world" where
  "etc_directory_world = example_world (\<lambda>n. None) is_etc nothing no_store"

text \<open>No candidate path exists.\<close>

definition bare_world :: "int world" where
  "bare_world = example_world (\<lambda>n. None) nothing nothing no_store"

text \<open>
  \<^verbatim>\<open>/etc/cyhy.toml\<close> is a regular file and the store holds a configuration under
  \<^verbatim>\<open>/cyhy/config\<close>, an empty document under \<^verbatim>\<open>/cyhy/empty\<close>, refuses access to
  \<^verbatim>\<open>/cyhy/secret\<close> and has nothing else. The environment names \<^verbatim>\<open>/cyhy/config\<close>.
\<close>

definition example_store :: "string \<Rightarrow> error + string" where
  "example_store k =
     (if k = ''/cyhy/config'' then Inr ''port = 443''
      else if k = ''/cyhy/empty'' then Inr ''# empty''
      else if k = ''/cyhy/secret'' then Inl (ClientError ''AccessDeniedException'')
      else Inl (ClientError ''ParameterNotFound''))"

definition ssm_env :: "string \<Rightarrow> string option" where
  "ssm_env n = (if n = ''CYHY_CONFIG_SSM_PATH'' then Some ''/cyhy/config'' else None)"

definition remote_world :: "int world" where
  "remote_world = example_world (\<lambda>n. None) is_etc is_etc example_store"

definition remote_env_world :: "int world" where
  "remote_env_world = example_world ssm_env is_etc is_etc example_store"

text \<open>A schema with a required port and an optional number of retries, both integers.\<close>

definition port_field :: "int field" where
  "port_field = \<lparr> fname = ''port'', ftype = (\<lambda>v. 0 \<le> v), required = True \<rparr>"

definition retries_field :: "int field" where
  "retries_field = \<lparr> fname = ''retries'', ftype = (\<lambda>v. 0 \<le> v), required = False \<rparr>"

definition example_schema :: "int schema" where
  "example_schema = \<lparr> schema_fields = [port_field, retries_field], forbid_extra = True \<rparr>"

section \<open>Properties\<close>

subsection \<open>Traces and the key slots\<close>

lemma nonempty_Some: "nonempty x = Some k \<Longrightarrow> nonempty (Some k) = Some k"
  by (cases x) (auto split: if_splits)

lemma first_key_nonempty: "first_key w sp = Some k \<Longrightarrow> nonempty (Some k) = Some k"
  by (auto simp: first_key_def split: option.splits dest: nonempty_Some)

lemma validate_config_no_fs: "fs_events (snd (validate_config d m)) = []"
  by (simp add: validate_config_def fs_events_def split: option.splits sum.splits error.splits)

lemma validate_config_no_ssm: "ssm_requests (snd (validate_config d m)) = []"
  by (simp add: validate_config_def ssm_requests_def
      split: option.splits sum.splits error.splits)

lemma fs_events_append: "fs_events (a @ b) = fs_events a @ fs_events b"
  by (simp add: fs_events_def)

lemma ssm_requests_append: "ssm_requests (a @ b) = ssm_requests a @ ssm_requests b"
  by (simp add: ssm_requests_def map_filter_def)

lemma ssm_requests_Cons:
  "ssm_requests (e # t) = (case ssm_request e of None \<Rightarrow> ssm_requests t | Some k \<Rightarrow> k # ssm_requests t)"
  by (simp add: ssm_requests_def split: option.splits)

lemma ssm_requests_Nil: "ssm_requests [] = []"
  by (simp add: ssm_requests_def)

lemma ssm_loop_key:
  assumes "nonempty (Some k) = Some k"
  shows "ssm_requests (snd (ssm_loop w m ((Some k, s) # rest))) = [k]"
    and "fs_events (snd (ssm_loop w m ((Some k, s) # rest))) = []"
  using assms validate_config_no_ssm[of _ m] validate_config_no_fs[of _ m]
  by (auto simp: ssm_requests_Cons ssm_requests_Nil ssm_requests_append fs_events_append
      case_prod_beta fs_events_def
      split: sum.splits error.splits if_splits)

lemma read_config_ssm_no_key:
  "first_key w sp = None \<Longrightarrow>
   read_config_ssm w sp m =
     (Inr None, [Log DEBUG ''Checking SSM parameter from %s: %s'',
                 Log DEBUG ''Checking SSM parameter from %s: %s''])"
  by (simp add: read_config_ssm_def first_key_def split: option.splits)

lemma ssm_loop_first:
  "nonempty (Some k) = Some k \<Longrightarrow>
   ssm_loop w m ((Some k, s) # rest) = ssm_loop w m [(Some k, s')]"
  by (simp split: if_splits)

lemma ssm_loop_skip:
  "nonempty x = None \<Longrightarrow>
   ssm_loop w m ((x, s) # rest) =
     (fst (ssm_loop w m rest),
      Log DEBUG ''Checking SSM parameter from %s: %s'' # snd (ssm_loop w m rest))"
  by (simp add: case_prod_beta)

lemma read_config_ssm_shape:
  assumes "first_key w sp = Some k"
  shows "\<exists>pre. (pre = [] \<or> pre = [Log DEBUG ''Checking SSM parameter from %s: %s''])
    \<and> read_config_ssm w sp m =
        (fst (ssm_loop w m [(Some k, s)]), pre @ snd (ssm_loop w m [(Some k, s)]))"
proof -
  have ne: "nonempty (Some k) = Some k"
    using assms by (rule first_key_nonempty)
  consider (arg) "nonempty sp = Some k"
    | (env) "nonempty sp = None" "nonempty (environ w CYHY_CONFIG_SSM_PATH_ENV) = Some k"
    using assms by (auto simp: first_key_def split: option.splits)
  then show ?thesis
  proof cases
    case arg
    then have "sp = Some k"
      by (cases sp) (auto split: if_splits)
    then have "read_config_ssm w sp m = ssm_loop w m [(Some k, s)]"
      unfolding read_config_ssm_def by (simp only: ssm_loop_first[OF ne])
    then show ?thesis
      by (intro exI[of _ "[]"]) (simp del: ssm_loop.simps)
  next
    case env
    then have e: "environ w CYHY_CONFIG_SSM_PATH_ENV = Some k"
      by (cases "environ w CYHY_CONFIG_SSM_PATH_ENV") (auto split: if_splits)
    have "read_config_ssm w sp m =
        (fst (ssm_loop w m [(Some k, ''environment variable'')]),
         Log DEBUG ''Checking SSM parameter from %s: %s'' #
         snd (ssm_loop w m [(Some k, ''environment variable'')]))"
      by (simp only: read_config_ssm_def e ssm_loop_skip[OF env(1)])
    then have "read_config_ssm w sp m =
        (fst (ssm_loop w m [(Some k, s)]),
         [Log DEBUG ''Checking SSM parameter from %s: %s''] @ snd (ssm_loop w m [(Some k, s)]))"
      by (simp only: ssm_loop_first[OF ne, of w m "''environment variable''" "[]" s] append.simps)
    then show ?thesis
      by blast
  qed
qed

lemma read_config_ssm_key:
  assumes "first_key w sp = Some k"
  shows "fst (read_config_ssm w sp m) = fst (ssm_loop w m [(Some k, s)])"
    and "ssm_requests (snd (read_config_ssm w sp m)) = [k]"
    and "fs_events (snd (read_config_ssm w sp m)) = []"
    and "set (snd (ssm_loop w m [(Some k, s)])) \<subseteq> set (snd (read_config_ssm w sp m))"
proof -
  have ne: "nonempty (Some k) = Some k"
    using assms by (rule first_key_nonempty)
  obtain pre where pre: "pre = [] \<or> pre = [Log DEBUG ''Checking SSM parameter from %s: %s'']"
    and eq: "read_config_ssm w sp m =
        (fst (ssm_loop w m [(Some k, s)]), pre @ snd (ssm_loop w m [(Some k, s)]))"
    using read_config_ssm_shape[OF assms] by blast
  show "fst (read_config_ssm w sp m) = fst (ssm_loop w m [(Some k, s)])"
    by (simp add: eq)
  show "ssm_requests (snd (read_config_ssm w sp m)) = [k]"
    using pre ssm_loop_key(1)[OF ne, of w m s "[]"]
    by (auto simp: eq ssm_requests_append ssm_requests_Cons ssm_requests_Nil
        simp del: ssm_loop.simps)
  show "fs_events (snd (read_config_ssm w sp m)) = []"
    using pre ssm_loop_key(2)[OF ne, of w m s "[]"]
    by (auto simp: eq fs_events_def simp del: ssm_loop.simps)
  show "set (snd (ssm_loop w m [(Some k, s)])) \<subseteq> set (snd (read_config_ssm w sp m))"
    by (simp add: eq del: ssm_loop.simps)
qed

lemma read_config_ssm_no_fs: "fs_events (snd (read_config_ssm w sp m)) = []"
proof (cases "first_key w sp")
  case None
  then show ?thesis
    by (simp add: read_config_ssm_no_key fs_events_def)
next
  case (Some k)
  then show ?thesis
    by (rule read_config_ssm_key(3))
qed

lemma read_config_ssm_requests:
  "ssm_requests (snd (read_config_ssm w sp m)) =
     (case first_key w sp of None \<Rightarrow> [] | Some k \<Rightarrow> [k])"
proof (cases "first_key w sp")
  case None
  then show ?thesis
    by (simp add: read_config_ssm_no_key ssm_requests_Cons ssm_requests_Nil)
next
  case (Some k)
  then show ?thesis
    by (simp add: read_config_ssm_key(2))
qed

lemma read_config_ssm_not_found:
  assumes "first_key w sp = Some k"
    and "get_parameter w k = Inl (ClientError ''ParameterNotFound'')"
  shows "fst (read_config_ssm w sp m) = Inr None"
  using first_key_nonempty[OF assms(1)] assms(2)
  by (simp add: read_config_ssm_key(1)[OF assms(1), of m "''path''"] split: if_splits)

lemma read_config_ssm_failure:
  assumes "first_key w sp = Some k"
    and "get_parameter w k = Inl e"
    and "e \<noteq> ClientError ''ParameterNotFound''"
  shows "fst (read_config_ssm w sp m) = Inl e"
  using first_key_nonempty[OF assms(1)] assms(2,3)
  by (simp add: read_config_ssm_key(1)[OF assms(1), of m "''path''"]
      split: if_splits error.splits)

lemma read_config_ssm_value:
  assumes "first_key w sp = Some k"
    and "get_parameter w k = Inr v"
    and "toml_loads w v = Inr d"
  shows "fst (read_config_ssm w sp m) = map_sum id Some (fst (validate_config d m))"
  using first_key_nonempty[OF assms(1)] assms(2,3)
  by (simp add: read_config_ssm_key(1)[OF assms(1), of m "''path''"] case_prod_beta
      split: if_splits)

lemma check_parameter_no_ssm: "ssm_requests (snd (check_parameter w fp)) = []"
  by (simp add: check_parameter_def ssm_requests_Cons ssm_requests_Nil split: option.splits)

lemma check_environment_no_ssm: "ssm_requests (snd (check_environment w)) = []"
  by (simp add: check_environment_def Let_def ssm_requests_Cons ssm_requests_Nil
      split: option.splits)

lemma find_config_file_no_ssm: "ssm_requests (snd (find_config_file w fp)) = []"
proof -
  obtain a t1 where p: "check_parameter w fp = (a, t1)"
    by (cases "check_parameter w fp")
  obtain b t2 where e: "check_environment w = (b, t2)"
    by (cases "check_environment w")
  have "ssm_requests t1 = []" "ssm_requests t2 = []"
    using check_parameter_no_ssm[of w fp] check_environment_no_ssm[of w] by (simp_all add: p e)
  then show ?thesis
    by (cases a; cases b)
      (simp_all add: find_config_file_def p e ssm_requests_append ssm_requests_Cons
        ssm_requests_Nil)
qed

lemma read_config_file_no_ssm: "ssm_requests (snd (read_config_file w p m)) = []"
  using validate_config_no_ssm[of _ m]
  by (simp add: read_config_file_def case_prod_beta
      ssm_requests_Cons ssm_requests_Nil ssm_requests_append
      split: sum.splits error.splits)

lemma find_config_file_fs: "fs_events (snd (find_config_file w fp)) \<noteq> []"
proof -
  obtain a t1 where p: "check_parameter w fp = (a, t1)"
    by (cases "check_parameter w fp")
  obtain b t2 where e: "check_environment w = (b, t2)"
    by (cases "check_environment w")
  have "a \<noteq> None \<Longrightarrow> fs_events t1 \<noteq> []"
    using p by (auto simp: check_parameter_def fs_events_def split: option.splits if_splits)
  moreover have "b \<noteq> None \<Longrightarrow> fs_events t2 \<noteq> []"
    using e by (auto simp: check_environment_def Let_def fs_events_def
        split: option.splits if_splits)
  ultimately show ?thesis
    by (cases a; cases b)
      (simp_all add: find_config_file_def p e fs_events_append, simp_all add: fs_events_def)
qed

subsection \<open>The two halves of get\_config\<close>

lemma get_config_fst:
  "fst (get_config w fp sp m) =
     (case fst (read_config_ssm w sp m) of
        Inl e \<Rightarrow> Inl e
      | Inr None \<Rightarrow> filesystem_result w fp m
      | Inr (Some c) \<Rightarrow> if truthy (Some c) then Inr c else filesystem_result w fp m)"
  by (simp add: get_config_def filesystem_result_def case_prod_beta
      split: prod.splits sum.splits option.splits)

lemma get_config_snd_remote:
  "fst (read_config_ssm w sp m) = Inl e \<or>
   (fst (read_config_ssm w sp m) = Inr c \<and> truthy c) \<Longrightarrow>
   snd (get_config w fp sp m) = snd (read_config_ssm w sp m)"
  by (cases c) (auto simp: get_config_def split: prod.splits sum.splits option.splits)

lemma get_config_snd_file:
  "fst (read_config_ssm w sp m) = Inr c \<Longrightarrow> \<not> truthy c \<Longrightarrow>
   snd (get_config w fp sp m) =
     snd (read_config_ssm w sp m) @ snd (find_config_file w fp) @
     (case fst (find_config_file w fp) of
        Inl e \<Rightarrow> []
      | Inr p \<Rightarrow> snd (read_config_file w p m))"
  by (cases c) (auto simp: get_config_def split: prod.splits sum.splits option.splits)

lemma get_config_requests:
  "ssm_requests (snd (get_config w fp sp m)) =
     (case first_key w sp of None \<Rightarrow> [] | Some k \<Rightarrow> [k])"
proof -
  have "ssm_requests (snd (get_config w fp sp m)) =
      ssm_requests (snd (read_config_ssm w sp m))"
  proof (cases "fst (read_config_ssm w sp m)")
    case (Inl e)
    then show ?thesis
      by (simp add: get_config_snd_remote)
  next
    case (Inr c)
    show ?thesis
    proof (cases "truthy c")
      case True
      with Inr show ?thesis
        by (simp add: get_config_snd_remote)
    next
      case False
      with Inr show ?thesis
        by (simp add: get_config_snd_file ssm_requests_append find_config_file_no_ssm
            read_config_file_no_ssm ssm_requests_Nil split: sum.splits)
    qed
  qed
  then show ?thesis
    by (simp add: read_config_ssm_requests)
qed

lemma get_config_fs_remote:
  assumes "fst (read_config_ssm w sp m) = Inl e \<or>
    (fst (read_config_ssm w sp m) = Inr c \<and> truthy c)"
  shows "fs_events (snd (get_config w fp sp m)) = []"
  using get_config_snd_remote[OF assms] by (simp add: read_config_ssm_no_fs)

subsection \<open>Tiers\<close>








lemma read_config_ssm_warning:
  assumes "first_key w sp = Some k"
    and "get_parameter w k = Inl (ClientError ''ParameterNotFound'')"
  shows "Log WARNING ''SSM parameter not found: %s'' \<in> set (snd (read_config_ssm w sp m))"
proof -
  have "Log WARNING ''SSM parameter not found: %s'' \<in> set (snd (ssm_loop w m [(Some k, ''path'')]))"
    using first_key_nonempty[OF assms(1)] assms(2) by (simp split: if_splits)
  with read_config_ssm_key(4)[OF assms(1), of m "''path''"] show ?thesis
    by blast
qed

lemma read_config_ssm_Some:
  assumes "fst (read_config_ssm w sp None) = Inr (Some c)"
  shows "\<exists>k v d. first_key w sp = Some k \<and> get_parameter w k = Inr v
    \<and> toml_loads w v = Inr d \<and> c = Dict d"
proof (cases "first_key w sp")
  case None
  with assms show ?thesis
    by (simp add: read_config_ssm_no_key)
next
  case (Some k)
  from assms have "fst (ssm_loop w None [(Some k, ''path'')]) = Inr (Some c)"
    by (simp add: read_config_ssm_key(1)[OF Some, of None "''path''"])
  with first_key_nonempty[OF Some] Some show ?thesis
    by (auto simp: validate_config_def split: if_splits sum.splits error.splits)
qed

lemma filesystem_result_Inr:
  assumes "filesystem_result w fp None = Inr c"
  shows "\<exists>p b d. fst (find_config_file w fp) = Inr p \<and> isfile w p \<and> open_rb w p = Inr b
    \<and> toml_load w b = Inr d \<and> c = Dict d"
  using assms
  by (auto simp: filesystem_result_def read_config_file_def validate_config_def
      split: if_splits sum.splits error.splits)

lemma find_config_file_explicit:
  assumes "nonempty fp = Some s" and "path_exists w (Path s)"
  shows "find_config_file w fp =
    (Inr (Path s),
     [PathExists (Path s), Log DEBUG ''Using configuration file passed as parameter: %s''])"
  using assms by (simp add: find_config_file_def check_parameter_def)

subsection \<open>Schemas\<close>

lemma missing_violation:
  assumes "f \<in> set (schema_fields s)" and "required f" and "Mapping.lookup d (fname f) = None"
  shows "Missing (fname f) \<in> violations s d"
proof -
  have "Missing (fname f) \<in> set (field_violations d f)"
    using assms(2,3) by (simp add: field_violations_def)
  with assms(1) show ?thesis
    by (auto simp: violations_def)
qed

lemma conforms_no_violations:
  assumes "conforms s d"
  shows "violations s d = {}"
proof -
  have "field_violations d f = []" if "f \<in> set (schema_fields s)" for f
    using assms that
    by (auto simp: conforms_def list_all_iff field_violations_def split: option.splits)
  then have "concat (map (field_violations d) (schema_fields s)) = []"
    by simp
  moreover have "unknown_fields s d = {}"
    using assms by (simp add: conforms_def)
  ultimately show ?thesis
    by (simp add: violations_def)
qed

lemma conforms_field:
  assumes "conforms s d" and "g \<in> set (schema_fields s)" and "required g"
  shows "Mapping.lookup d (fname g) \<noteq> None"
  using assms by (auto simp: conforms_def list_all_iff split: option.splits)

lemma validate_config_model:
  "fst (validate_config d (Some m)) = (case m d of Inl e \<Rightarrow> Inl e | Inr i \<Rightarrow> Inr (Instance i))"
  by (simp add: validate_config_def split: sum.splits error.splits)

subsection \<open>Unfolding\<close>

lemmas code_defs =
  get_config_def read_config_ssm_def read_config_file_def find_config_file_def
  check_parameter_def check_environment_def validate_config_def
  CONFIG_PATH_CWD_def CONFIG_PATH_ETC_def CONFIG_PATH_HOME_def
  CYHY_CONFIG_PATH_ENV_def CYHY_CONFIG_SSM_PATH_ENV_def

lemmas spec_defs =
  tier_candidate_def tier_exists_def first_key_def filesystem_result_def
  fs_events_def ssm_requests_def

lemmas example_defs =
  example_world_def example_loads_def example_store_def no_store_def is_etc_def nothing_def
  ssm_env_def etc_world_def etc_directory_world_def bare_world_def remote_world_def
  remote_env_world_def

subsection \<open>Claims about the filesystem search\<close>



subsection \<open>Claims about the order of the remote store and the filesystem\<close>

text \<open>
  The claim that an existing explicit file path is selected before the remote parameter store
  is consulted fails: in \<open>remote_world\<close> the explicit path \<^verbatim>\<open>/etc/cyhy.toml\<close> is a
  regular file holding \<^verbatim>\<open>port = 8080\<close>, yet \<^verbatim>\<open>get_config\<close> asks the store for
  \<^verbatim>\<open>/cyhy/config\<close>, returns its \<^verbatim>\<open>port = 443\<close> and never touches the filesystem.
\<close>
theorem get_config_explicit_path_counterexample:
  "path_exists remote_world (Path ''/etc/cyhy.toml'')
   \<and> isfile remote_world (Path ''/etc/cyhy.toml'')
   \<and> filesystem_result remote_world (Some ''/etc/cyhy.toml'') (None :: (int, unit) model option)
       = Inr (Dict (Mapping.update ''port'' 8080 Mapping.empty))
   \<and> fst (get_config remote_world (Some ''/etc/cyhy.toml'') (Some ''/cyhy/config'')
            (None :: (int, unit) model option))
       = Inr (Dict (Mapping.update ''port'' 443 Mapping.empty))
   \<and> ssm_requests (snd (get_config remote_world (Some ''/etc/cyhy.toml'') (Some ''/cyhy/config'')
            (None :: (int, unit) model option)))
       = [''/cyhy/config'']
   \<and> fs_events (snd (get_config remote_world (Some ''/etc/cyhy.toml'') (Some ''/cyhy/config'')
            (None :: (int, unit) model option)))
       = []"
  by (simp add: code_defs spec_defs example_defs)

text \<open>
  C2, as amended. The remote parameter store comes first. When the remote lookup yields
  \<^verbatim>\<open>None\<close> and the file-path argument names an existing path, \<^verbatim>\<open>get_config\<close> reads
  exactly that path, and it is the first thing it looks at on the filesystem. When the remote
  lookup yields a configuration that Python counts as true, \<^verbatim>\<open>get_config\<close> returns it
  whatever the file-path argument is, without any filesystem access.
\<close>
theorem get_config_remote_before_explicit_path:
  "(nonempty file_path = Some s \<and> path_exists w (Path s)
      \<and> fst (read_config_ssm w ssm_path model) = Inr None
    \<longrightarrow> fst (get_config w file_path ssm_path model) = fst (read_config_file w (Path s) model)
      \<and> fs_events (snd (get_config w file_path ssm_path model)) =
          PathExists (Path s) # fs_events (snd (read_config_file w (Path s) model)))
   \<and> (fst (read_config_ssm w' ssm_path' model') = Inr (Some c) \<and> truthy (Some c)
    \<longrightarrow> fst (get_config w' file_path' ssm_path' model') = Inr c
      \<and> fs_events (snd (get_config w' file_path' ssm_path' model')) = [])"
proof (intro conjI impI)
  assume a: "nonempty file_path = Some s \<and> path_exists w (Path s)
      \<and> fst (read_config_ssm w ssm_path model) = Inr None"
  then have f: "find_config_file w file_path =
    (Inr (Path s),
     [PathExists (Path s), Log DEBUG ''Using configuration file passed as parameter: %s''])"
    by (simp add: find_config_file_explicit)
  from a f show "fst (get_config w file_path ssm_path model) =
      fst (read_config_file w (Path s) model)"
    by (simp add: get_config_fst filesystem_result_def)
  from a have "snd (get_config w file_path ssm_path model) =
      snd (read_config_ssm w ssm_path model) @ snd (find_config_file w file_path) @
      snd (read_config_file w (Path s) model)"
    using get_config_snd_file[of w ssm_path model None file_path] f by simp
  then show "fs_events (snd (get_config w file_path ssm_path model)) =
      PathExists (Path s) # fs_events (snd (read_config_file w (Path s) model))"
    by (simp add: f fs_events_append read_config_ssm_no_fs) (simp add: fs_events_def)
next
  assume b: "fst (read_config_ssm w' ssm_path' model') = Inr (Some c) \<and> truthy (Some c)"
  then show "fst (get_config w' file_path' ssm_path' model') = Inr c"
    by (simp add: get_config_fst)
  from b show "fs_events (snd (get_config w' file_path' ssm_path' model')) = []"
    using get_config_fs_remote[of w' ssm_path' model' _ "Some c"] by simp
qed

theorem get_config_remote_before_explicit_path_witness:
  "nonempty (Some ''/etc/cyhy.toml'') = Some ''/etc/cyhy.toml''
   \<and> path_exists remote_world (Path ''/etc/cyhy.toml'')
   \<and> fst (read_config_ssm remote_world (Some ''/cyhy/missing'')
        (None :: (int, unit) model option)) = Inr None
   \<and> fst (get_config remote_world (Some ''/etc/cyhy.toml'') (Some ''/cyhy/missing'')
        (None :: (int, unit) model option))
      = fst (read_config_file remote_world (Path ''/etc/cyhy.toml'')
        (None :: (int, unit) model option))
   \<and> fs_events (snd (get_config remote_world (Some ''/etc/cyhy.toml'') (Some ''/cyhy/missing'')
        (None :: (int, unit) model option)))
      = PathExists (Path ''/etc/cyhy.toml'') #
        fs_events (snd (read_config_file remote_world (Path ''/etc/cyhy.toml'')
          (None :: (int, unit) model option)))
   \<and> fst (read_config_ssm remote_world (Some ''/cyhy/config'')
        (None :: (int, unit) model option))
      = Inr (Some (Dict (Mapping.update ''port'' 443 Mapping.empty)))
   \<and> truthy (Some (Dict (Mapping.update ''port'' 443 Mapping.empty) :: (int, unit) config))
   \<and> fst (get_config remote_world (Some ''/etc/cyhy.toml'') (Some ''/cyhy/config'')
        (None :: (int, unit) model option))
      = Inr (Dict (Mapping.update ''port'' 443 Mapping.empty))
   \<and> fs_events (snd (get_config remote_world (Some ''/etc/cyhy.toml'') (Some ''/cyhy/config'')
        (None :: (int, unit) model option))) = []"
proof -
  have h1: "nonempty (Some ''/etc/cyhy.toml'') = Some ''/etc/cyhy.toml''"
    by simp
  have h2: "path_exists remote_world (Path ''/etc/cyhy.toml'')"
    by (simp add: example_defs)
  have h3: "fst (read_config_ssm remote_world (Some ''/cyhy/missing'')
        (None :: (int, unit) model option)) = Inr None"
    by (simp add: code_defs example_defs)
  have h4: "fst (read_config_ssm remote_world (Some ''/cyhy/config'')
        (None :: (int, unit) model option))
      = Inr (Some (Dict (Mapping.update ''port'' 443 Mapping.empty)))"
    by (simp add: code_defs example_defs)
  have h5: "truthy (Some (Dict (Mapping.update ''port'' 443 Mapping.empty) :: (int, unit) config))"
    by simp
  from h1 h2 h3 h4 h5
    get_config_remote_before_explicit_path
      [of "Some ''/etc/cyhy.toml''" "''/etc/cyhy.toml''" remote_world "Some ''/cyhy/missing''"
          "None :: (int, unit) model option" remote_world "Some ''/cyhy/config''"
          "None :: (int, unit) model option" "Dict (Mapping.update ''port'' 443 Mapping.empty)"
          "Some ''/etc/cyhy.toml''"]
  show ?thesis
    by simp
qed

text \<open>
  C3 says that whenever the store returns a value for the configured key, the decoded value
  is returned and the filesystem is never consulted. Here the store returns the document
  \<^verbatim>\<open># empty\<close> for \<^verbatim>\<open>/cyhy/empty\<close>, which decodes to the empty dict; no model is
  given. \<^verbatim>\<open>get_config\<close> then tests, reads and returns \<^verbatim>\<open>/etc/cyhy.toml\<close>.
\<close>
theorem get_config_empty_remote_mapping:
  "get_parameter remote_world ''/cyhy/empty'' = Inr ''# empty''
   \<and> toml_loads remote_world ''# empty'' = Inr Mapping.empty
   \<and> fst (read_config_ssm remote_world (Some ''/cyhy/empty'') (None :: (int, unit) model option))
      = Inr (Some (Dict Mapping.empty))
   \<and> fst (get_config remote_world (Some ''/etc/cyhy.toml'') (Some ''/cyhy/empty'')
        (None :: (int, unit) model option))
      = Inr (Dict (Mapping.update ''port'' 8080 Mapping.empty))
   \<and> fs_events (snd (get_config remote_world (Some ''/etc/cyhy.toml'') (Some ''/cyhy/empty'')
        (None :: (int, unit) model option)))
      = [PathExists (Path ''/etc/cyhy.toml''), IsFile (Path ''/etc/cyhy.toml''),
         OpenFile (Path ''/etc/cyhy.toml'')]"
  by (simp add: code_defs spec_defs example_defs)

subsection \<open>Claims about the remote lookup\<close>

text \<open>
  C4. In every call the keys sent to the store are: nothing when both slots are empty, and
  otherwise the first non-empty key alone. If the store answers \<^verbatim>\<open>ParameterNotFound\<close> for
  that key, \<^verbatim>\<open>read_config_ssm\<close> logs a warning and returns \<^verbatim>\<open>None\<close>, having sent that
  one request, and \<^verbatim>\<open>get_config\<close> returns what the filesystem search and read give.
\<close>
theorem read_config_ssm_first_key_only:
  "ssm_requests (snd (get_config w file_path ssm_path model)) =
     (case first_key w ssm_path of None \<Rightarrow> [] | Some k' \<Rightarrow> [k'])
   \<and> (first_key w ssm_path = Some k
        \<and> get_parameter w k = Inl (ClientError ''ParameterNotFound'')
      \<longrightarrow> fst (read_config_ssm w ssm_path model) = Inr None
        \<and> Log WARNING ''SSM parameter not found: %s''
            \<in> set (snd (read_config_ssm w ssm_path model))
        \<and> ssm_requests (snd (read_config_ssm w ssm_path model)) = [k]
        \<and> fst (get_config w file_path ssm_path model) = filesystem_result w file_path model)"
proof (intro conjI impI)
  show "ssm_requests (snd (get_config w file_path ssm_path model)) =
      (case first_key w ssm_path of None \<Rightarrow> [] | Some k' \<Rightarrow> [k'])"
    by (rule get_config_requests)
next
  assume a: "first_key w ssm_path = Some k
    \<and> get_parameter w k = Inl (ClientError ''ParameterNotFound'')"
  then show r: "fst (read_config_ssm w ssm_path model) = Inr None"
    by (simp add: read_config_ssm_not_found)
  from a show "Log WARNING ''SSM parameter not found: %s''
      \<in> set (snd (read_config_ssm w ssm_path model))"
    by (simp add: read_config_ssm_warning)
  from a show "ssm_requests (snd (read_config_ssm w ssm_path model)) = [k]"
    by (simp add: read_config_ssm_requests)
  from r show "fst (get_config w file_path ssm_path model) = filesystem_result w file_path model"
    by (simp add: get_config_fst)
qed

theorem read_config_ssm_first_key_only_witness:
  "first_key remote_env_world (Some ''/cyhy/missing'') = Some ''/cyhy/missing''
   \<and> environ remote_env_world CYHY_CONFIG_SSM_PATH_ENV = Some ''/cyhy/config''
   \<and> get_parameter remote_env_world ''/cyhy/missing'' = Inl (ClientError ''ParameterNotFound'')
   \<and> get_parameter remote_env_world ''/cyhy/config'' = Inr ''port = 443''
   \<and> ssm_requests (snd (get_config remote_env_world None (Some ''/cyhy/missing'')
        (None :: (int, unit) model option))) = [''/cyhy/missing'']
   \<and> fst (read_config_ssm remote_env_world (Some ''/cyhy/missing'')
        (None :: (int, unit) model option)) = Inr None
   \<and> Log WARNING ''SSM parameter not found: %s''
       \<in> set (snd (read_config_ssm remote_env_world (Some ''/cyhy/missing'')
            (None :: (int, unit) model option)))
   \<and> fst (get_config remote_env_world None (Some ''/cyhy/missing'')
        (None :: (int, unit) model option))
      = Inr (Dict (Mapping.update ''port'' 8080 Mapping.empty))"
proof -
  have h1: "first_key remote_env_world (Some ''/cyhy/missing'') = Some ''/cyhy/missing''"
    by (simp add: first_key_def)
  have h2: "get_parameter remote_env_world ''/cyhy/missing''
      = Inl (ClientError ''ParameterNotFound'')"
    by (simp add: example_defs)
  have h3: "environ remote_env_world CYHY_CONFIG_SSM_PATH_ENV = Some ''/cyhy/config''"
    by (simp add: code_defs example_defs)
  have h4: "get_parameter remote_env_world ''/cyhy/config'' = Inr ''port = 443''"
    by (simp add: example_defs)
  have h5: "filesystem_result remote_env_world None (None :: (int, unit) model option)
      = Inr (Dict (Mapping.update ''port'' 8080 Mapping.empty))"
    by (simp add: code_defs spec_defs example_defs)
  from h1 h2 h3 h4 h5
    read_config_ssm_first_key_only
      [of remote_env_world None "Some ''/cyhy/missing''" "None :: (int, unit) model option"
          "''/cyhy/missing''"]
  show ?thesis
    by simp
qed

text \<open>
  C5. If the store fails for the first non-empty key with anything other than a
  \<^verbatim>\<open>ClientError\<close> whose code is \<^verbatim>\<open>ParameterNotFound\<close>, \<^verbatim>\<open>get_config\<close> raises that
  error and makes no filesystem access, whatever files exist.
\<close>
theorem get_config_remote_failure:
  assumes "first_key w ssm_path = Some k"
    and "get_parameter w k = Inl e"
    and "e \<noteq> ClientError ''ParameterNotFound''"
  shows "fst (get_config w file_path ssm_path model) = Inl e
    \<and> fs_events (snd (get_config w file_path ssm_path model)) = []"
proof -
  have r: "fst (read_config_ssm w ssm_path model) = Inl e"
    using assms by (rule read_config_ssm_failure)
  then have "fst (get_config w file_path ssm_path model) = Inl e"
    by (simp add: get_config_fst)
  moreover have "fs_events (snd (get_config w file_path ssm_path model)) = []"
    using get_config_fs_remote[of w ssm_path model e] r by simp
  ultimately show ?thesis
    by simp
qed

theorem get_config_remote_failure_witness:
  "first_key remote_world (Some ''/cyhy/secret'') = Some ''/cyhy/secret''
   \<and> get_parameter remote_world ''/cyhy/secret'' = Inl (ClientError ''AccessDeniedException'')
   \<and> ClientError ''AccessDeniedException'' \<noteq> ClientError ''ParameterNotFound''
   \<and> filesystem_result remote_world (Some ''/etc/cyhy.toml'') (None :: (int, unit) model option)
      = Inr (Dict (Mapping.update ''port'' 8080 Mapping.empty))
   \<and> fst (get_config remote_world (Some ''/etc/cyhy.toml'') (Some ''/cyhy/secret'')
        (None :: (int, unit) model option)) = Inl (ClientError ''AccessDeniedException'')
   \<and> fs_events (snd (get_config remote_world (Some ''/etc/cyhy.toml'') (Some ''/cyhy/secret'')
        (None :: (int, unit) model option))) = []"
proof -
  have h1: "first_key remote_world (Some ''/cyhy/secret'') = Some ''/cyhy/secret''"
    by (simp add: first_key_def)
  have h2: "get_parameter remote_world ''/cyhy/secret''
      = Inl (ClientError ''AccessDeniedException'')"
    by (simp add: example_defs)
  have h3: "ClientError ''AccessDeniedException'' \<noteq> ClientError ''ParameterNotFound''"
    by simp
  have h4: "filesystem_result remote_world (Some ''/etc/cyhy.toml'')
      (None :: (int, unit) model option)
      = Inr (Dict (Mapping.update ''port'' 8080 Mapping.empty))"
    by (simp add: code_defs spec_defs example_defs)
  from h1 h2 h3 h4
    get_config_remote_failure
      [OF h1 h2 h3, of "Some ''/etc/cyhy.toml''" "None :: (int, unit) model option"]
  show ?thesis
    by simp
qed



subsection \<open>Claims about validation\<close>

text \<open>
  C7. With a schema as model: if a required field of the schema is missing from the mapping,
  \<^verbatim>\<open>validate_config\<close> raises \<^verbatim>\<open>ValidationError\<close> and the missing field is among the
  violations listed. If the mapping conforms to the schema, \<^verbatim>\<open>validate_config\<close> returns an
  instance in which every field of the schema has the value the mapping gives it, and every
  required field has a value.
\<close>
theorem validate_config_schema:
  "(f \<in> set (schema_fields s) \<and> required f \<and> Mapping.lookup d (fname f) = None
      \<longrightarrow> (\<exists>vs. fst (validate_config d (Some (construct s))) = Inl (ValidationError vs)
             \<and> Missing (fname f) \<in> vs))
   \<and> (conforms s d'
      \<longrightarrow> (\<exists>inst. fst (validate_config d' (Some (construct s))) = Inr (Instance inst)
             \<and> (\<forall>g \<in> set (schema_fields s).
                  Mapping.lookup inst (fname g) = Mapping.lookup d' (fname g)
                  \<and> (required g \<longrightarrow> Mapping.lookup inst (fname g) \<noteq> None))))"
proof (intro conjI impI)
  assume a: "f \<in> set (schema_fields s) \<and> required f \<and> Mapping.lookup d (fname f) = None"
  then have m: "Missing (fname f) \<in> violations s d"
    by (simp add: missing_violation)
  then have "violations s d \<noteq> {}"
    by blast
  then have "fst (validate_config d (Some (construct s))) = Inl (ValidationError (violations s d))"
    by (simp add: validate_config_model construct_def)
  with m show "\<exists>vs. fst (validate_config d (Some (construct s))) = Inl (ValidationError vs)
      \<and> Missing (fname f) \<in> vs"
    by blast
next
  assume c: "conforms s d'"
  let ?inst = "Mapping.filter (\<lambda>k v. k \<in> set (map fname (schema_fields s))) d'"
  have r: "fst (validate_config d' (Some (construct s))) = Inr (Instance ?inst)"
    using conforms_no_violations[OF c] by (simp add: validate_config_model construct_def)
  have l: "Mapping.lookup ?inst (fname g) = Mapping.lookup d' (fname g)"
    if "g \<in> set (schema_fields s)" for g
    using that by (simp add: lookup_filter split: option.splits)
  have "Mapping.lookup ?inst (fname g) = Mapping.lookup d' (fname g)
      \<and> (required g \<longrightarrow> Mapping.lookup ?inst (fname g) \<noteq> None)"
    if "g \<in> set (schema_fields s)" for g
    using that l[OF that] conforms_field[OF c that] by simp
  with r show "\<exists>inst. fst (validate_config d' (Some (construct s))) = Inr (Instance inst)
      \<and> (\<forall>g \<in> set (schema_fields s).
            Mapping.lookup inst (fname g) = Mapping.lookup d' (fname g)
            \<and> (required g \<longrightarrow> Mapping.lookup inst (fname g) \<noteq> None))"
    by blast
qed

theorem validate_config_schema_witness:
  "port_field \<in> set (schema_fields example_schema)
   \<and> required port_field
   \<and> Mapping.lookup (Mapping.update ''retries'' (3::int) Mapping.empty) (fname port_field) = None
   \<and> (\<exists>vs. fst (validate_config (Mapping.update ''retries'' 3 Mapping.empty)
                (Some (construct example_schema))) = Inl (ValidationError vs)
          \<and> Missing ''port'' \<in> vs)
   \<and> conforms example_schema (Mapping.update ''port'' 8080 Mapping.empty)
   \<and> (\<exists>inst. fst (validate_config (Mapping.update ''port'' 8080 Mapping.empty)
                  (Some (construct example_schema))) = Inr (Instance inst)
          \<and> Mapping.lookup inst ''port'' = Some 8080
          \<and> Mapping.lookup inst ''retries'' = None)"
proof -
  have h1: "port_field \<in> set (schema_fields example_schema)"
    by (simp add: example_schema_def)
  have h2: "required port_field"
    by (simp add: port_field_def)
  have h3: "Mapping.lookup (Mapping.update ''retries'' (3::int) Mapping.empty) (fname port_field)
      = None"
    by (simp add: port_field_def)
  have h4: "conforms example_schema (Mapping.update ''port'' 8080 Mapping.empty)"
    by (auto simp: conforms_def unknown_fields_def example_schema_def port_field_def
        retries_field_def)
  from h1 h2 h3 h4
    validate_config_schema
      [of port_field example_schema
          "Mapping.update ''retries'' 3 Mapping.empty"
          "Mapping.update ''port'' 8080 Mapping.empty"]
  show ?thesis
    by (auto simp: example_schema_def port_field_def retries_field_def)
qed

text \<open>
  C8. Without a model, \<^verbatim>\<open>validate_config\<close> returns the mapping it was given. So whatever
  \<^verbatim>\<open>get_config\<close> returns without a model is a dict \<open>d'\<close> that is the decoded mapping
  itself: the decoding of the value the store gave for the first non-empty key, or the
  decoding of the content of the file that \<^verbatim>\<open>find_config_file\<close> selected.
\<close>
theorem validate_config_pass_through:
  "fst (validate_config d None) = Inr (Dict d)
   \<and> (fst (get_config w file_path ssm_path None) = Inr c
      \<longrightarrow> (\<exists>d'. c = Dict d'
            \<and> ((\<exists>k v. first_key w ssm_path = Some k \<and> get_parameter w k = Inr v
                    \<and> toml_loads w v = Inr d')
               \<or> (\<exists>p b. fst (find_config_file w file_path) = Inr p \<and> open_rb w p = Inr b
                    \<and> toml_load w b = Inr d'))))"
proof (intro conjI impI)
  show "fst (validate_config d None) = Inr (Dict d)"
    by (simp add: validate_config_def)
next
  assume a: "fst (get_config w file_path ssm_path None) = Inr c"
  then consider (from_remote) "fst (read_config_ssm w ssm_path None) = Inr (Some c)"
    | (from_file) "filesystem_result w file_path None = Inr c"
    by (auto simp: get_config_fst split: sum.splits option.splits if_splits)
  then show "\<exists>d'. c = Dict d'
      \<and> ((\<exists>k v. first_key w ssm_path = Some k \<and> get_parameter w k = Inr v
              \<and> toml_loads w v = Inr d')
         \<or> (\<exists>p b. fst (find_config_file w file_path) = Inr p \<and> open_rb w p = Inr b
              \<and> toml_load w b = Inr d'))"
  proof cases
    case from_remote
    from read_config_ssm_Some[OF from_remote] show ?thesis
      by blast
  next
    case from_file
    from filesystem_result_Inr[OF from_file] show ?thesis
      by blast
  qed
qed

theorem validate_config_pass_through_witness:
  "fst (validate_config (Mapping.update ''port'' (8080::int) Mapping.empty)
        (None :: (int, unit) model option))
     = Inr (Dict (Mapping.update ''port'' 8080 Mapping.empty))
   \<and> fst (get_config etc_world None None (None :: (int, unit) model option))
     = Inr (Dict (Mapping.update ''port'' 8080 Mapping.empty))
   \<and> first_key etc_world None = None
   \<and> fst (find_config_file etc_world None) = Inr (Path ''/etc/cyhy.toml'')
   \<and> open_rb etc_world (Path ''/etc/cyhy.toml'') = Inr ''port = 8080''
   \<and> toml_load etc_world ''port = 8080'' = Inr (Mapping.update ''port'' 8080 Mapping.empty)"
proof -
  have h: "fst (get_config etc_world None None (None :: (int, unit) model option))
      = Inr (Dict (Mapping.update ''port'' 8080 Mapping.empty))"
    by (simp add: code_defs example_defs)
  have f: "first_key etc_world None = None"
    "fst (find_config_file etc_world None) = Inr (Path ''/etc/cyhy.toml'')"
    "open_rb etc_world (Path ''/etc/cyhy.toml'') = Inr ''port = 8080''"
    "toml_load etc_world ''port = 8080'' = Inr (Mapping.update ''port'' 8080 Mapping.empty)"
    by (simp_all add: code_defs spec_defs example_defs)
  from h f
    validate_config_pass_through
      [of "Mapping.update ''port'' (8080::int) Mapping.empty" etc_world None None
          "Dict (Mapping.update ''port'' 8080 Mapping.empty) :: (int, unit) config"]
  show ?thesis
    by simp
qed

subsection \<open>Claims about the fall-through to the filesystem\<close>

text \<open>
  C9. If the store returns a value for the first non-empty key, the value decodes to an empty
  mapping and no model is given, then \<^verbatim>\<open>read_config_ssm\<close> returns that empty dict, and
  \<^verbatim>\<open>get_config\<close> nevertheless goes on to the filesystem: its result is the one of the
  filesystem search and read, and its trace has filesystem accesses.
\<close>
theorem get_config_empty_mapping_falls_through:
  assumes "first_key w ssm_path = Some k"
    and "get_parameter w k = Inr v"
    and "toml_loads w v = Inr d"
    and "Mapping.is_empty d"
  shows "fst (read_config_ssm w ssm_path (None :: ('v, 'i) model option)) = Inr (Some (Dict d))
    \<and> fst (get_config w file_path ssm_path (None :: ('v, 'i) model option))
        = filesystem_result w file_path None
    \<and> fs_events (snd (get_config w file_path ssm_path (None :: ('v, 'i) model option))) \<noteq> []"
proof -
  have r: "fst (read_config_ssm w ssm_path (None :: ('v, 'i) model option))
      = Inr (Some (Dict d))"
    using read_config_ssm_value[OF assms(1-3), of "None :: ('v, 'i) model option"]
    by (simp add: validate_config_def)
  have t: "\<not> truthy (Some (Dict d :: ('v, 'i) config))"
    using assms(4) by simp
  from r t have "fst (get_config w file_path ssm_path (None :: ('v, 'i) model option))
      = filesystem_result w file_path None"
    by (simp add: get_config_fst)
  moreover have "fs_events (snd (get_config w file_path ssm_path
      (None :: ('v, 'i) model option))) \<noteq> []"
    using find_config_file_fs[of w file_path]
    by (simp add: get_config_snd_file[OF r t] fs_events_append)
  ultimately show ?thesis
    using r by simp
qed

theorem get_config_empty_mapping_falls_through_witness:
  "first_key remote_world (Some ''/cyhy/empty'') = Some ''/cyhy/empty''
   \<and> get_parameter remote_world ''/cyhy/empty'' = Inr ''# empty''
   \<and> toml_loads remote_world ''# empty'' = Inr Mapping.empty
   \<and> Mapping.is_empty (Mapping.empty :: int config_dict)
   \<and> fst (read_config_ssm remote_world (Some ''/cyhy/empty'')
        (None :: (int, unit) model option)) = Inr (Some (Dict Mapping.empty))
   \<and> fst (get_config remote_world None (Some ''/cyhy/empty'')
        (None :: (int, unit) model option))
      = Inr (Dict (Mapping.update ''port'' 8080 Mapping.empty))
   \<and> fs_events (snd (get_config remote_world None (Some ''/cyhy/empty'')
        (None :: (int, unit) model option))) \<noteq> []"
proof -
  have h1: "first_key remote_world (Some ''/cyhy/empty'') = Some ''/cyhy/empty''"
    by (simp add: first_key_def)
  have h2: "get_parameter remote_world ''/cyhy/empty'' = Inr ''# empty''"
    by (simp add: example_defs)
  have h3: "toml_loads remote_world ''# empty'' = Inr Mapping.empty"
    by (simp add: example_defs)
  have h4: "Mapping.is_empty (Mapping.empty :: int config_dict)"
    by simp
  have h5: "filesystem_result remote_world None (None :: (int, unit) model option)
      = Inr (Dict (Mapping.update ''port'' 8080 Mapping.empty))"
    by (simp add: code_defs spec_defs example_defs)
  from h1 h2 h3 h4 h5
    get_config_empty_mapping_falls_through
      [OF h1 h2 h3 h4, where ?'i = unit and file_path = None]
  show ?thesis
    by simp
qed



end
